theory Spec2Isabelle
  imports Main "HOL-Library.Sublist"
begin

section \<open>Data model of \<open>woocommerce_sync.py\<close>\<close>

text \<open>
  The \<open>Config\<close> dataclass. The five connection strings (\<open>woo_url\<close>, \<open>woo_key\<close>,
  \<open>woo_secret\<close>, \<open>bluefin_url\<close>, \<open>bluefin_key\<close>) are only handed to the two HTTP
  clients in \<open>__init__\<close>; the clients are the environment below.
\<close>

record config =
  add_photos :: bool
  set_missing_sku_to_zero :: bool
  set_no_sku_to_zero :: bool
  add_short_description :: bool
  add_long_description :: bool
  blacklist_skus :: "string set"
  track_cost_price :: bool
  cost_price_field :: string

text \<open>
  One element of the upstream \<open>stock\<close> array, a JSON object in which any key may be
  absent: \<open>None\<close> is the absent key. \<open>item_spec\<close> and \<open>full_name\<close> are the two keys of
  the nested \<open>properties\<close> object and are both \<open>None\<close> when that object is absent.
  \<open>filter_stock\<close> reads \<open>sku\<close> and \<open>properties.item_spec\<close> with \<open>dict.get\<close>; every other
  read is \<open>product[...]\<close>, which raises \<open>KeyError\<close> on an absent key. A present \<open>price\<close>
  is the decimal text of the JSON value, so that \<open>str(product["price"])\<close> is the value
  itself; a present \<open>in_stock\<close> is an integer, so that \<open>int(product["in_stock"])\<close> is
  the value itself.
\<close>

record stock_item =
  sku :: "string option"
  item_spec :: "string option"
  price :: "string option"
  in_stock :: "int option"
  model :: "string option"
  color :: "string option"
  cat_name :: "string option"
  ean :: "string option"
  image_src :: "string option"
  full_name :: "string option"

text \<open>
  One element of the downstream listing. \<open>woo_sku\<close> is \<open>None\<close> when the key is absent
  or null; the code tests \<open>p.get("sku")\<close> for truth, which also fails on the empty string.
\<close>

record woo_product =
  woo_id :: int
  woo_sku :: "string option"

text \<open>The dictionary built by \<open>prepare_product_data\<close>, the body of \<open>POST products\<close>.\<close>

record product_data =
  pd_name :: string
  pd_type :: string
  pd_regular_price :: string
  pd_categories :: "string list"
  pd_stock_quantity :: int
  pd_manage_stock :: bool
  pd_sku :: string
  pd_description :: "string option"
  pd_short_description :: "string option"
  pd_images :: "string list option"
  pd_meta_data :: "(string \<times> string) list option"

text \<open>The dictionary \<open>update_data\<close> of \<open>update_product\<close>, the body of \<open>PUT products/{id}\<close>.\<close>

record update_data =
  ud_stock_quantity :: int
  ud_meta_data :: "(string \<times> string) list option"

text \<open>
  What \<open>sync_products\<close> hands to \<open>executor.submit\<close>: either
  \<open>self.update_product(product_id, stock_quantity, cost_price)\<close> or
  \<open>self.wcapi.post("products", data)\<close>. The list \<open>futures\<close> of the source is a list of
  these, in submission order.
\<close>

datatype job =
  UpdateProduct int int "string option"
| PostProducts product_data

text \<open>
  The zeroing rules submit \<open>update_product(id, 0)\<close>, where \<open>cost_price\<close> takes its
  default \<open>None\<close>.
\<close>

abbreviation ZeroStock :: "int \<Rightarrow> job" where
  "ZeroStock i \<equiv> UpdateProduct i 0 None"

datatype py_exception = KeyError string | RequestError string

text \<open>
  A downstream call either raises or returns a response, whose status the code never
  inspects (the return values of \<open>wcapi.put\<close> and \<open>wcapi.post\<close> are dropped).
\<close>

datatype call_outcome = Raises py_exception | Responds nat

text \<open>
  The world outside the process. \<open>bluefin_get\<close> is the outcome of the three lines
  \<open>session.get\<close>, \<open>raise_for_status\<close>, \<open>response.json()\<close>, where the inner \<open>None\<close> is a
  JSON object without a \<open>stock\<close> key. \<open>woo_get n\<close> is the outcome of requesting listing
  page \<open>n\<close>. \<open>woo_put i k\<close> is the outcome of attempt \<open>k\<close> of the \<open>PUT\<close> made by the
  future at position \<open>i\<close> of \<open>futures\<close>, \<open>woo_post i\<close> that of the \<open>POST\<close> made by the future
  at position \<open>i\<close>: each future only ever sees the outcomes of its own calls, so the
  interleaving of the five pool workers does not enter.
\<close>

record env =
  bluefin_get :: "py_exception + stock_item list option"
  woo_get :: "nat \<Rightarrow> py_exception + woo_product list"
  woo_put :: "nat \<Rightarrow> nat \<Rightarrow> call_outcome"
  woo_post :: "nat \<Rightarrow> call_outcome"

datatype event = Put int update_data | Sleep nat | Post product_data

section \<open>SKU validation and blacklist\<close>

text \<open>The character class \<open>[a-zA-Z0-9_-]\<close>, by code point.\<close>

definition sku_char :: "char \<Rightarrow> bool" where
  "sku_char c =
     (let n = (of_char c :: nat)
      in (97 \<le> n \<and> n \<le> 122) \<or> (65 \<le> n \<and> n \<le> 90) \<or> (48 \<le> n \<and> n \<le> 57)
         \<or> n = 95 \<or> n = 45)"

text \<open>
  \<open>bool(re.match(r"^[a-zA-Z0-9_-]+$", sku))\<close>. The greedy \<open>+\<close> consumes the longest
  run of class characters (a shorter run would leave a class character in front of
  \<open>$\<close>, which cannot match there), and it needs at least one. Python's \<open>$\<close>, without
  \<open>re.MULTILINE\<close>, matches at the end of the string and also just before a newline
  that is the last character of the string.
\<close>

definition validate_sku :: "string \<Rightarrow> bool" where
  "validate_sku s =
     (let run = takeWhile sku_char s; rest = dropWhile sku_char s
      in run \<noteq> [] \<and> (rest = [] \<or> rest = [CHR 0x0A]))"

definition is_blacklisted :: "config \<Rightarrow> string \<Rightarrow> bool" where
  "is_blacklisted cfg s = (s \<in> blacklist_skus cfg)"

section \<open>Fetching and filtering\<close>

definition fetch_stock_data :: "env \<Rightarrow> py_exception + stock_item list option" where
  "fetch_stock_data e = bluefin_get e"

text \<open>\<open>item.get("sku", "")\<close>.\<close>

definition get_sku :: "stock_item \<Rightarrow> string" where
  "get_sku item = (case sku item of None \<Rightarrow> [] | Some s \<Rightarrow> s)"

definition eligible_specs :: "string list" where
  "eligible_specs = [''EU Spec'', ''Global spec'']"

text \<open>\<open>item.get("properties", {}).get("item_spec") in ["EU Spec", "Global spec"]\<close>.\<close>

definition spec_eligible :: "stock_item \<Rightarrow> bool" where
  "spec_eligible item =
     (case item_spec item of None \<Rightarrow> False | Some sp \<Rightarrow> sp \<in> set eligible_specs)"

primrec filter_items :: "config \<Rightarrow> stock_item list \<Rightarrow> stock_item list" where
  "filter_items cfg [] = []"
| "filter_items cfg (item # items) =
     (if spec_eligible item \<and> \<not> is_blacklisted cfg (get_sku item)
      then item # filter_items cfg items
      else filter_items cfg items)"

text \<open>\<open>data.get("stock", [])\<close>.\<close>

definition stock_array :: "stock_item list option \<Rightarrow> stock_item list" where
  "stock_array data = (case data of None \<Rightarrow> [] | Some items \<Rightarrow> items)"

definition filter_stock :: "config \<Rightarrow> stock_item list option \<Rightarrow> stock_item list" where
  "filter_stock cfg data = filter_items cfg (stock_array data)"

text \<open>
  The \<open>while True\<close> loop of \<open>fetch_all_woo_products\<close>. It has no bound of its own, so
  the model is a partial function: \<open>None\<close> is a loop that never leaves. The last argument
  records the pages requested so far.
\<close>

partial_function (option) fetch_pages ::
  "(nat \<Rightarrow> py_exception + woo_product list) \<Rightarrow> nat \<Rightarrow> woo_product list \<Rightarrow> nat list
    \<Rightarrow> (nat list \<times> (py_exception + woo_product list)) option"
where
  "fetch_pages get page all_products requested =
     (case get page of
        Inl e \<Rightarrow> Some (requested @ [page], Inl e)
      | Inr products \<Rightarrow>
          if products = [] then Some (requested @ [page], Inr all_products)
          else fetch_pages get (page + 1) (all_products @ products) (requested @ [page]))"

declare fetch_pages.simps [code]

definition fetch_all_woo_products ::
  "env \<Rightarrow> (nat list \<times> (py_exception + woo_product list)) option" where
  "fetch_all_woo_products e = fetch_pages (woo_get e) 1 [] []"

section \<open>Building the requests\<close>

text \<open>
  A part of the product data that a flag switches on: \<open>if flag: data[...] =
  ... product[key] ...\<close>. The result is the value read, if the flag is set.
\<close>

definition optional_part :: "bool \<Rightarrow> string \<Rightarrow> 'a option \<Rightarrow> py_exception + 'a option" where
  "optional_part flag key v =
     (if flag then (case v of None \<Rightarrow> Inl (KeyError key) | Some x \<Rightarrow> Inr (Some x))
      else Inr None)"

text \<open>
  \<open>prepare_product_data\<close>: the keys are read in the order of the source, and the first
  absent one raises. It is called for filtered records only, whose \<open>properties\<close> object
  is present, so that an absent \<open>full_name\<close> is an absent key of that object.
\<close>

definition prepare_product_data :: "config \<Rightarrow> stock_item \<Rightarrow> py_exception + product_data" where
  "prepare_product_data cfg product =
     (case model product of None \<Rightarrow> Inl (KeyError ''model'') | Some m \<Rightarrow>
     (case color product of None \<Rightarrow> Inl (KeyError ''color'') | Some c \<Rightarrow>
     (case price product of None \<Rightarrow> Inl (KeyError ''price'') | Some pr \<Rightarrow>
     (case cat_name product of None \<Rightarrow> Inl (KeyError ''cat_name'') | Some cat \<Rightarrow>
     (case in_stock product of None \<Rightarrow> Inl (KeyError ''in_stock'') | Some q \<Rightarrow>
     (case sku product of None \<Rightarrow> Inl (KeyError ''sku'') | Some s \<Rightarrow>
     (case optional_part (add_long_description cfg) ''full_name'' (full_name product) of
        Inl x \<Rightarrow> Inl x | Inr description \<Rightarrow>
     (case optional_part (add_short_description cfg) ''ean'' (ean product) of
        Inl x \<Rightarrow> Inl x | Inr e \<Rightarrow>
     (case optional_part (add_photos cfg) ''image'' (image_src product) of
        Inl x \<Rightarrow> Inl x | Inr img \<Rightarrow>
        Inr \<lparr> pd_name = m @ '' '' @ c,
              pd_type = ''simple'',
              pd_regular_price = pr,
              pd_categories = [cat],
              pd_stock_quantity = q,
              pd_manage_stock = True,
              pd_sku = s,
              pd_description = description,
              pd_short_description = map_option (\<lambda>t. ''SKU: '' @ s @ '' | EAN: '' @ t) e,
              pd_images = map_option (\<lambda>i. [i]) img,
              pd_meta_data =
                (if track_cost_price cfg then Some [(cost_price_field cfg, pr)]
                 else None) \<rparr>)))))))))"

definition max_retries :: nat where
  "max_retries = 3"

definition build_update_data :: "config \<Rightarrow> int \<Rightarrow> string option \<Rightarrow> update_data" where
  "build_update_data cfg stock_quantity cost_price =
     \<lparr> ud_stock_quantity = stock_quantity,
       ud_meta_data =
         (case cost_price of
            Some c \<Rightarrow> if track_cost_price cfg then Some [(cost_price_field cfg, c)] else None
          | None \<Rightarrow> None) \<rparr>"

text \<open>
  The body of \<open>for attempt in range(max_retries)\<close>, over the attempts still to run.
  The result is the trace of calls and sleeps, and the exception raised, if any.
\<close>

fun update_attempts ::
  "(nat \<Rightarrow> call_outcome) \<Rightarrow> int \<Rightarrow> update_data \<Rightarrow> nat list \<Rightarrow> event list
    \<Rightarrow> event list \<times> py_exception option" where
  "update_attempts put product_id body [] trace = (trace, None)"
| "update_attempts put product_id body (attempt # rest) trace =
     (case put attempt of
        Responds status \<Rightarrow> (trace @ [Put product_id body], None)
      | Raises e \<Rightarrow>
          if attempt = max_retries - 1 then (trace @ [Put product_id body], Some e)
          else update_attempts put product_id body rest
                 (trace @ [Put product_id body, Sleep (2 ^ attempt)]))"

definition update_product ::
  "config \<Rightarrow> (nat \<Rightarrow> call_outcome) \<Rightarrow> int \<Rightarrow> int \<Rightarrow> string option
    \<Rightarrow> event list \<times> py_exception option" where
  "update_product cfg put product_id stock_quantity cost_price =
     update_attempts put product_id (build_update_data cfg stock_quantity cost_price)
       [0..<max_retries] []"

section \<open>The synchronisation run\<close>

text \<open>
  The dictionary comprehension \<open>existing_product_map\<close>: the entries are stored in
  listing order, and storing under a key that is already there replaces the value.
\<close>

fun store_products ::
  "config \<Rightarrow> woo_product list \<Rightarrow> (string \<rightharpoonup> woo_product) \<Rightarrow> (string \<rightharpoonup> woo_product)" where
  "store_products cfg [] m = m"
| "store_products cfg (p # ps) m =
     store_products cfg ps
       (case woo_sku p of
          None \<Rightarrow> m
        | Some s \<Rightarrow> if s \<noteq> [] \<and> \<not> is_blacklisted cfg s then m(s \<mapsto> p) else m)"

definition existing_product_map ::
  "config \<Rightarrow> woo_product list \<Rightarrow> (string \<rightharpoonup> woo_product)" where
  "existing_product_map cfg existing_products = store_products cfg existing_products Map.empty"

text \<open>
  The arguments of \<open>executor.submit(self.update_product, ...)\<close>, evaluated from left
  to right: the entry's id, \<open>product["in_stock"]\<close>, and
  \<open>product["price"] if self.config.track_cost_price else None\<close>.
\<close>

definition submit_update :: "config \<Rightarrow> woo_product \<Rightarrow> stock_item \<Rightarrow> py_exception + job" where
  "submit_update cfg existing product =
     (case in_stock product of
        None \<Rightarrow> Inl (KeyError ''in_stock'')
      | Some q \<Rightarrow>
          if track_cost_price cfg
          then (case price product of
                  None \<Rightarrow> Inl (KeyError ''price'')
                | Some c \<Rightarrow> Inr (UpdateProduct (woo_id existing) q (Some c)))
          else Inr (UpdateProduct (woo_id existing) q None))"

text \<open>
  The loop "Update or create products". A \<open>KeyError\<close>, from \<open>product["sku"]\<close> or from
  building the arguments of \<open>submit\<close>, leaves the loop; the futures submitted before stay
  submitted.
\<close>

fun update_or_create ::
  "config \<Rightarrow> (string \<rightharpoonup> woo_product) \<Rightarrow> stock_item list \<Rightarrow> job list
    \<Rightarrow> job list \<times> py_exception option" where
  "update_or_create cfg m [] futures = (futures, None)"
| "update_or_create cfg m (product # rest) futures =
     (case sku product of
        None \<Rightarrow> (futures, Some (KeyError ''sku''))
      | Some s \<Rightarrow>
          if \<not> validate_sku s then update_or_create cfg m rest futures
          else (case m s of
                  Some existing \<Rightarrow>
                    (case submit_update cfg existing product of
                       Inl x \<Rightarrow> (futures, Some x)
                     | Inr job \<Rightarrow> update_or_create cfg m rest (futures @ [job]))
                | None \<Rightarrow>
                    (case prepare_product_data cfg product of
                       Inl x \<Rightarrow> (futures, Some x)
                     | Inr d \<Rightarrow> update_or_create cfg m rest (futures @ [PostProducts d]))))"

text \<open>\<open>{p["sku"] for p in filtered_stock}\<close>, which raises on a record without the key.\<close>

definition json_skus :: "stock_item list \<Rightarrow> py_exception + string set" where
  "json_skus filtered_stock =
     (case those (map sku filtered_stock) of
        None \<Rightarrow> Inl (KeyError ''sku'')
      | Some skus \<Rightarrow> Inr (set skus))"

definition has_sku :: "woo_product \<Rightarrow> bool" where
  "has_sku p = (case woo_sku p of None \<Rightarrow> False | Some s \<Rightarrow> s \<noteq> [])"

text \<open>The block "Handle missing SKUs (excluding blacklisted ones)".\<close>

definition handle_missing_skus ::
  "config \<Rightarrow> stock_item list \<Rightarrow> woo_product list \<Rightarrow> job list
    \<Rightarrow> job list \<times> py_exception option" where
  "handle_missing_skus cfg filtered_stock existing_products futures =
     (if set_missing_sku_to_zero cfg then
        (case json_skus filtered_stock of
           Inl e \<Rightarrow> (futures, Some e)
         | Inr skus \<Rightarrow>
             (futures @
                map (\<lambda>p. ZeroStock (woo_id p))
                  (filter (\<lambda>p. case woo_sku p of
                                  None \<Rightarrow> False
                                | Some s \<Rightarrow> s \<noteq> [] \<and> s \<notin> skus \<and> \<not> is_blacklisted cfg s)
                     existing_products),
              None))
      else (futures, None))"

text \<open>The block "Handle products with no SKU".\<close>

definition handle_no_sku :: "config \<Rightarrow> woo_product list \<Rightarrow> job list \<Rightarrow> job list" where
  "handle_no_sku cfg existing_products futures =
     (if set_no_sku_to_zero cfg
      then futures @ map (\<lambda>p. ZeroStock (woo_id p)) (filter (\<lambda>p. \<not> has_sku p) existing_products)
      else futures)"

text \<open>
  The body of the \<open>with ThreadPoolExecutor\<close> block up to the wait loop: the futures
  submitted, and the exception that cut the submission short, if any.
\<close>

definition submit_all ::
  "config \<Rightarrow> stock_item list \<Rightarrow> woo_product list \<Rightarrow> job list \<times> py_exception option" where
  "submit_all cfg filtered_stock existing_products =
     (case update_or_create cfg (existing_product_map cfg existing_products) filtered_stock [] of
        (futures, Some e) \<Rightarrow> (futures, Some e)
      | (futures, None) \<Rightarrow>
          (case handle_missing_skus cfg filtered_stock existing_products futures of
             (futures', Some e) \<Rightarrow> (futures', Some e)
           | (futures', None) \<Rightarrow> (handle_no_sku cfg existing_products futures', None)))"

text \<open>What the future at position \<open>i\<close> does when a worker runs it.\<close>

fun run_job :: "config \<Rightarrow> env \<Rightarrow> nat \<Rightarrow> job \<Rightarrow> event list \<times> py_exception option" where
  "run_job cfg e i (UpdateProduct product_id stock_quantity cost_price) =
     update_product cfg (woo_put e i) product_id stock_quantity cost_price"
| "run_job cfg e i (PostProducts d) =
     ([Post d], case woo_post e i of Raises x \<Rightarrow> Some x | Responds status \<Rightarrow> None)"

definition run_futures ::
  "config \<Rightarrow> env \<Rightarrow> job list \<Rightarrow> (event list \<times> py_exception option) list" where
  "run_futures cfg e futures = map (\<lambda>(i, j). run_job cfg e i j) (enumerate 0 futures)"

text \<open>\<open>for future in futures: future.result()\<close> re-raises the first stored exception.\<close>

fun first_raised :: "py_exception option list \<Rightarrow> py_exception option" where
  "first_raised [] = None"
| "first_raised (None # rs) = first_raised rs"
| "first_raised (Some x # rs) = Some x"

text \<open>
  The outcome of \<open>sync_products\<close>: every future that was submitted, with the trace of
  what it did, and the exception that leaves \<open>sync_products\<close>, if any. Leaving the
  \<open>with\<close> block, also by an exception, waits for every submitted future, so all of them
  run.
\<close>

record run =
  executed :: "(job \<times> event list) list"
  raised :: "py_exception option"

definition sync_products :: "config \<Rightarrow> env \<Rightarrow> run option" where
  "sync_products cfg e =
     (case fetch_stock_data e of
        Inl x \<Rightarrow> Some \<lparr> executed = [], raised = Some x \<rparr>
      | Inr stock_data \<Rightarrow>
          (let filtered_stock = filter_stock cfg stock_data in
           case fetch_all_woo_products e of
             None \<Rightarrow> None
           | Some (requested, Inl x) \<Rightarrow> Some \<lparr> executed = [], raised = Some x \<rparr>
           | Some (requested, Inr existing_products) \<Rightarrow>
               (case submit_all cfg filtered_stock existing_products of
                  (futures, err) \<Rightarrow>
                    (let results = run_futures cfg e futures
                     in Some \<lparr> executed = zip futures (map fst results),
                               raised = (case err of
                                           Some x \<Rightarrow> Some x
                                         | None \<Rightarrow> first_raised (map snd results)) \<rparr>))))"

text \<open>
  \<open>main\<close>: the exit status of the process. \<open>loaded\<close> is the outcome of
  \<open>Config.from_file()\<close>. Falling off the end of \<open>main\<close> is status 0, \<open>sys.exit(1)\<close> is 1.
\<close>

definition main :: "py_exception + config \<Rightarrow> env \<Rightarrow> nat option" where
  "main loaded e =
     (case loaded of
        Inl x \<Rightarrow> Some 1
      | Inr cfg \<Rightarrow>
          (case sync_products cfg e of
             None \<Rightarrow> None
           | Some r \<Rightarrow> Some (if raised r = None then 0 else 1)))"

text \<open>
  The coordinator states of the specification, read off the run: \<open>Done\<close> is reaching
  the log line "Synchronization completed successfully", \<open>Failed\<close> is the handler that
  logs "Synchronization failed" and re-raises.
\<close>

datatype coordinator_state = Done | Failed

definition final_state :: "run \<Rightarrow> coordinator_state" where
  "final_state r = (if raised r = None then Done else Failed)"

section \<open>Notions of the specification\<close>

text \<open>
  \<open>Create(record)\<close>: the body of the \<open>POST\<close>, field by field from the record. The name
  is model and color, the regular price and the cost-price meta entry are the record's
  price, the stock quantity is the record's stock, the SKU is the record's SKU.
\<close>

definition create_payload :: "config \<Rightarrow> stock_item \<Rightarrow> product_data" where
  "create_payload cfg record =
     \<lparr> pd_name = the (model record) @ '' '' @ the (color record),
       pd_type = ''simple'',
       pd_regular_price = the (price record),
       pd_categories = [the (cat_name record)],
       pd_stock_quantity = the (in_stock record),
       pd_manage_stock = True,
       pd_sku = get_sku record,
       pd_description = (if add_long_description cfg then full_name record else None),
       pd_short_description =
         (if add_short_description cfg
          then Some (''SKU: '' @ get_sku record @ '' | EAN: '' @ the (ean record)) else None),
       pd_images = (if add_photos cfg then Some [the (image_src record)] else None),
       pd_meta_data =
         (if track_cost_price cfg then Some [(cost_price_field cfg, the (price record))]
          else None) \<rparr>"

text \<open>
  Rule 1 of the planner, in the specification's words: for a record whose SKU is in
  the index, \<open>UpdateStock(entry.id, record.stockQuantity, record.price if costTracking
  else null)\<close>, else \<open>Create(record)\<close>.
\<close>

definition spec_operation :: "config \<Rightarrow> (string \<rightharpoonup> woo_product) \<Rightarrow> stock_item \<Rightarrow> job" where
  "spec_operation cfg index record =
     (case index (get_sku record) of
        Some entry \<Rightarrow>
          UpdateProduct (woo_id entry) (the (in_stock record))
            (if track_cost_price cfg then price record else None)
      | None \<Rightarrow> PostProducts (create_payload cfg record))"

text \<open>
  The keys that the loop reads from a record are all there: the SKU; for a record with
  a valid SKU in the index the stock and, with cost tracking, the price; for a record
  with a valid SKU outside the index the six keys of every product and the keys of the
  parts that are switched on.
\<close>

definition update_keys_present :: "config \<Rightarrow> stock_item \<Rightarrow> bool" where
  "update_keys_present cfg record =
     (in_stock record \<noteq> None \<and> (track_cost_price cfg \<longrightarrow> price record \<noteq> None))"

definition create_keys_present :: "config \<Rightarrow> stock_item \<Rightarrow> bool" where
  "create_keys_present cfg record =
     (model record \<noteq> None \<and> color record \<noteq> None \<and> price record \<noteq> None
      \<and> cat_name record \<noteq> None \<and> in_stock record \<noteq> None
      \<and> (add_long_description cfg \<longrightarrow> full_name record \<noteq> None)
      \<and> (add_short_description cfg \<longrightarrow> ean record \<noteq> None)
      \<and> (add_photos cfg \<longrightarrow> image_src record \<noteq> None))"

definition record_readable :: "config \<Rightarrow> (string \<rightharpoonup> woo_product) \<Rightarrow> stock_item \<Rightarrow> bool" where
  "record_readable cfg index record =
     (case sku record of
        None \<Rightarrow> False
      | Some s \<Rightarrow>
          \<not> validate_sku s
          \<or> (case index s of
                Some entry \<Rightarrow> update_keys_present cfg record
              | None \<Rightarrow> create_keys_present cfg record))"

text \<open>The filtered records whose SKU passes \<open>validate_sku\<close>, in feed order.\<close>

definition valid_records :: "stock_item list \<Rightarrow> stock_item list" where
  "valid_records filtered_stock = filter (\<lambda>p. validate_sku (get_sku p)) filtered_stock"

text \<open>
  What the two zeroing blocks append when every filtered record carries a SKU: one
  \<open>ZeroStock\<close> per listing entry that passes the block's test, in listing order.
\<close>

definition stale_entry :: "config \<Rightarrow> stock_item list \<Rightarrow> woo_product \<Rightarrow> bool" where
  "stale_entry cfg filtered_stock p =
     (case woo_sku p of
        None \<Rightarrow> False
      | Some s \<Rightarrow> s \<noteq> [] \<and> s \<notin> get_sku ` set filtered_stock \<and> s \<notin> blacklist_skus cfg)"

definition missing_sku_zeros :: "config \<Rightarrow> stock_item list \<Rightarrow> woo_product list \<Rightarrow> job list" where
  "missing_sku_zeros cfg filtered_stock existing_products =
     (if set_missing_sku_to_zero cfg
      then map (\<lambda>p. ZeroStock (woo_id p)) (filter (stale_entry cfg filtered_stock) existing_products)
      else [])"

definition no_sku_zeros :: "config \<Rightarrow> woo_product list \<Rightarrow> job list" where
  "no_sku_zeros cfg existing_products =
     (if set_no_sku_to_zero cfg
      then map (\<lambda>p. ZeroStock (woo_id p)) (filter (\<lambda>p. \<not> has_sku p) existing_products)
      else [])"

text \<open>The entries of listing page \<open>k\<close>, and whether page \<open>k\<close> arrives with entries.\<close>

definition page_entries :: "(nat \<Rightarrow> py_exception + woo_product list) \<Rightarrow> nat \<Rightarrow> woo_product list" where
  "page_entries get k = (case get k of Inl x \<Rightarrow> [] | Inr products \<Rightarrow> products)"

definition full_page :: "(nat \<Rightarrow> py_exception + woo_product list) \<Rightarrow> nat \<Rightarrow> bool" where
  "full_page get k = (case get k of Inl x \<Rightarrow> False | Inr products \<Rightarrow> products \<noteq> [])"

subsection \<open>Example data\<close>

text \<open>
  The configuration that \<open>Config.from_file\<close> builds from a file that only sets
  \<open>blacklist_skus = X9\<close>: every flag falls back to \<open>True\<close>.
\<close>

definition example_config :: config where
  "example_config =
     \<lparr> add_photos = True, set_missing_sku_to_zero = True, set_no_sku_to_zero = True,
       add_short_description = True, add_long_description = True,
       blacklist_skus = {''X9''}, track_cost_price = True,
       cost_price_field = ''_supplier_cost'' \<rparr>"

definition example_item :: "string \<Rightarrow> string \<Rightarrow> int \<Rightarrow> stock_item" where
  "example_item s sp q =
     \<lparr> sku = Some s, item_spec = Some sp, price = Some ''199.00'', in_stock = Some q,
       model = Some ''Galaxy S24'', color = Some ''Black'', cat_name = Some ''Phones'',
       ean = Some ''8806095300000'', image_src = Some ''https://img.example/s24.jpg'',
       full_name = Some ''Galaxy S24 Black 128GB'' \<rparr>"

text \<open>An eligible record without the \<open>sku\<close> key.\<close>

definition keyless_item :: stock_item where
  "keyless_item = (example_item [] ''EU Spec'' 2) \<lparr> sku := None \<rparr>"

definition example_entry :: "int \<Rightarrow> string \<Rightarrow> woo_product" where
  "example_entry i s = \<lparr> woo_id = i, woo_sku = Some s \<rparr>"

text \<open>
  The blacklist as \<open>Config.from_file\<close> parses it:
  \<open>{sku.strip() for sku in blacklist_skus_str.split(',') if sku.strip()}\<close>.
  \<open>str.strip\<close> is Python's own; it is the parameter \<open>strip\<close>.
\<close>

fun split_on :: "char \<Rightarrow> string \<Rightarrow> string list" where
  "split_on sep [] = [[]]"
| "split_on sep (c # cs) =
     (if c = sep then [] # split_on sep cs
      else (case split_on sep cs of [] \<Rightarrow> [[c]] | t # ts \<Rightarrow> (c # t) # ts))"

definition parse_blacklist :: "(string \<Rightarrow> string) \<Rightarrow> string \<Rightarrow> string set" where
  "parse_blacklist strip blacklist_skus_str =
     set (map strip (filter (\<lambda>t. strip t \<noteq> []) (split_on CHR '','' blacklist_skus_str)))"

definition example_data :: "stock_item list option" where
  "example_data =
     Some [example_item ''A1'' ''EU Spec'' 5, example_item ''B2'' ''Other'' 2,
           example_item ''X9'' ''Global spec'' 1, example_item ''N7'' ''Global spec'' 3,
           example_item ''A 1'' ''EU Spec'' 4]"

text \<open>A feed with a record without \<open>sku\<close> key between two good records.\<close>

definition keyless_data :: "stock_item list option" where
  "keyless_data =
     Some [example_item ''A1'' ''EU Spec'' 5, keyless_item, example_item ''N7'' ''Global spec'' 3]"

definition example_listing :: "woo_product list" where
  "example_listing =
     [example_entry 10 ''A1'', example_entry 11 ''X9'', example_entry 20 ''C3'',
      \<lparr> woo_id = 30, woo_sku = None \<rparr>, example_entry 40 ''A 1'']"

text \<open>
  An environment in which the listing has one page of entries, every \<open>PUT\<close> times out
  and every \<open>POST\<close> is answered.
\<close>

definition timeout_env :: env where
  "timeout_env =
     \<lparr> bluefin_get = Inr example_data,
       woo_get = (\<lambda>n. if n = 1 then Inr example_listing else Inr []),
       woo_put = (\<lambda>i k. Raises (RequestError ''timed out'')),
       woo_post = (\<lambda>i. Responds 201) \<rparr>"

text \<open>The same, with the feed that holds a record without \<open>sku\<close> key.\<close>

definition keyless_env :: env where
  "keyless_env = timeout_env \<lparr> bluefin_get := Inr keyless_data \<rparr>"

text \<open>
  An environment whose third listing page fails, and one whose listing never ends.
\<close>

definition broken_listing_env :: env where
  "broken_listing_env =
     \<lparr> bluefin_get = Inr example_data,
       woo_get = (\<lambda>n. if n = 3 then Inl (RequestError ''connection reset'')
                       else Inr example_listing),
       woo_put = (\<lambda>i k. Responds 200),
       woo_post = (\<lambda>i. Responds 201) \<rparr>"

definition endless_listing_env :: env where
  "endless_listing_env =
     \<lparr> bluefin_get = Inr example_data,
       woo_get = (\<lambda>n. Inr example_listing),
       woo_put = (\<lambda>i k. Responds 200),
       woo_post = (\<lambda>i. Responds 201) \<rparr>"

section \<open>Auxiliary facts\<close>

subsection \<open>Validation and filtering\<close>


lemma sku_char_newline: "\<not> sku_char (CHR 0x0A)"
  by (simp add: sku_char_def)

lemma validate_sku_iff:
  "validate_sku s \<longleftrightarrow>
     (s \<noteq> [] \<and> list_all sku_char s) \<or>
     (\<exists>b. s = b @ [CHR 0x0A] \<and> b \<noteq> [] \<and> list_all sku_char b)"
proof
  assume v: "validate_sku s"
  let ?run = "takeWhile sku_char s" and ?rest = "dropWhile sku_char s"
  from v have ne: "?run \<noteq> []" and r: "?rest = [] \<or> ?rest = [CHR 0x0A]"
    by (simp_all add: validate_sku_def Let_def)
  have s: "s = ?run @ ?rest" by simp
  have allrun: "list_all sku_char ?run"
    by (auto simp: list_all_iff dest: set_takeWhileD)
  from r show "(s \<noteq> [] \<and> list_all sku_char s) \<or>
     (\<exists>b. s = b @ [CHR 0x0A] \<and> b \<noteq> [] \<and> list_all sku_char b)"
  proof
    assume "?rest = []"
    with s have "s = ?run" by simp
    with ne allrun show ?thesis by metis
  next
    assume "?rest = [CHR 0x0A]"
    with s have "s = ?run @ [CHR 0x0A]" by simp
    with ne allrun show ?thesis by blast
  qed
next
  assume "(s \<noteq> [] \<and> list_all sku_char s) \<or>
     (\<exists>b. s = b @ [CHR 0x0A] \<and> b \<noteq> [] \<and> list_all sku_char b)"
  then show "validate_sku s"
  proof
    assume a: "s \<noteq> [] \<and> list_all sku_char s"
    then have tw: "takeWhile sku_char s = s" and dw: "dropWhile sku_char s = []"
      by (simp_all add: list_all_iff)
    show ?thesis unfolding validate_sku_def Let_def tw dw using a by simp
  next
    assume "\<exists>b. s = b @ [CHR 0x0A] \<and> b \<noteq> [] \<and> list_all sku_char b"
    then obtain b where b: "s = b @ [CHR 0x0A]" "b \<noteq> []" "list_all sku_char b" by blast
    then have tw: "takeWhile sku_char s = b" and dw: "dropWhile sku_char s = [CHR 0x0A]"
      using sku_char_newline by (simp_all add: list_all_iff takeWhile_append2 dropWhile_append2)
    show ?thesis unfolding validate_sku_def Let_def tw dw using b by simp
  qed
qed

lemma filter_items_eq:
  "filter_items cfg items =
     filter (\<lambda>item. spec_eligible item \<and> \<not> is_blacklisted cfg (get_sku item)) items"
  by (induction items) simp_all

lemma spec_eligible_iff:
  "spec_eligible item \<longleftrightarrow> item_spec item \<in> {Some ''EU Spec'', Some ''Global spec''}"
  by (auto simp: spec_eligible_def eligible_specs_def split: option.splits)

lemma range_max_retries: "[0..<max_retries] = [0, 1, 2]"
  by (simp add: max_retries_def upt_rec)

lemma update_product_unrolled:
  "update_product cfg put product_id stock_quantity cost_price =
     (let b = Put product_id (build_update_data cfg stock_quantity cost_price) in
      case put 0 of
        Responds s0 \<Rightarrow> ([b], None)
      | Raises x0 \<Rightarrow>
          (case put 1 of
             Responds s1 \<Rightarrow> ([b, Sleep 1, b], None)
           | Raises x1 \<Rightarrow>
               (case put 2 of
                  Responds s2 \<Rightarrow> ([b, Sleep 1, b, Sleep 2, b], None)
                | Raises x2 \<Rightarrow> ([b, Sleep 1, b, Sleep 2, b], Some x2))))"
  unfolding update_product_def range_max_retries
  by (simp add: max_retries_def Let_def split: call_outcome.splits)


subsection \<open>The index and the submitted futures\<close>


lemma store_products_skip:
  "s = [] \<or> is_blacklisted cfg s \<Longrightarrow> store_products cfg ps m s = m s"
  by (induction ps arbitrary: m) (auto split: option.splits)

lemma store_products_last:
  "s \<noteq> [] \<Longrightarrow> \<not> is_blacklisted cfg s \<Longrightarrow>
   store_products cfg ps m s =
     (if filter (\<lambda>p. woo_sku p = Some s) ps = [] then m s
      else Some (last (filter (\<lambda>p. woo_sku p = Some s) ps)))"
  by (induction ps arbitrary: m) (auto split: option.splits)

lemma existing_product_map_Some:
  assumes "existing_product_map cfg ps s = Some p"
  shows "s \<noteq> [] \<and> \<not> is_blacklisted cfg s \<and> filter (\<lambda>q. woo_sku q = Some s) ps \<noteq> []
         \<and> p = last (filter (\<lambda>q. woo_sku q = Some s) ps)"
proof -
  have ok: "s \<noteq> [] \<and> \<not> is_blacklisted cfg s"
    using assms store_products_skip [of s cfg ps Map.empty]
    by (auto simp: existing_product_map_def)
  with assms store_products_last [of s cfg ps Map.empty] show ?thesis
    by (auto simp: existing_product_map_def split: if_splits)
qed

lemma existing_product_map_entry:
  assumes "existing_product_map cfg ps s = Some p"
  shows "p \<in> set ps \<and> woo_sku p = Some s"
proof -
  let ?qs = "filter (\<lambda>q. woo_sku q = Some s) ps"
  from existing_product_map_Some [OF assms] have ne: "?qs \<noteq> []" and p: "p = last ?qs"
    by simp_all
  from ne have "last ?qs \<in> set ?qs" by (rule last_in_set)
  then have "last ?qs \<in> set ps \<and> woo_sku (last ?qs) = Some s"
    unfolding set_filter by blast
  then show ?thesis unfolding p .
qed

lemma pd_sku_create_payload: "pd_sku (create_payload cfg p) = get_sku p"
  by (simp add: create_payload_def)

lemma prepare_product_data_present:
  assumes "sku p \<noteq> None" and "create_keys_present cfg p"
  shows "prepare_product_data cfg p = Inr (create_payload cfg p)"
  using assms
  by (auto simp: prepare_product_data_def create_payload_def create_keys_present_def
        optional_part_def get_sku_def)

lemma prepare_product_data_absent:
  assumes "\<not> create_keys_present cfg p"
  shows "\<exists>key. prepare_product_data cfg p = Inl (KeyError key)"
  using assms
  by (auto simp: prepare_product_data_def create_keys_present_def optional_part_def
        split: option.splits)

lemma submit_update_present:
  assumes "update_keys_present cfg p"
  shows "submit_update cfg existing p =
           Inr (UpdateProduct (woo_id existing) (the (in_stock p))
                  (if track_cost_price cfg then price p else None))"
  using assms by (auto simp: submit_update_def update_keys_present_def)

lemma submit_update_absent:
  assumes "\<not> update_keys_present cfg p"
  shows "\<exists>key. submit_update cfg existing p = Inl (KeyError key)"
  using assms by (auto simp: submit_update_def update_keys_present_def split: option.splits)

lemma record_readable_sku: "record_readable cfg m p \<Longrightarrow> sku p \<noteq> None"
  by (auto simp: record_readable_def split: option.splits)

lemma update_or_create_readable:
  assumes "record_readable cfg m p"
  shows "update_or_create cfg m (p # rest) futures =
           update_or_create cfg m rest (futures @ map (spec_operation cfg m) (valid_records [p]))"
proof -
  from record_readable_sku [OF assms] obtain s where s: "sku p = Some s" by auto
  then have g: "get_sku p = s" by (simp add: get_sku_def)
  show ?thesis
  proof (cases "validate_sku s")
    case False
    with s g show ?thesis by (simp add: valid_records_def)
  next
    case True
    show ?thesis
    proof (cases "m s")
      case None
      with assms s True have "create_keys_present cfg p" by (simp add: record_readable_def)
      with s have "prepare_product_data cfg p = Inr (create_payload cfg p)"
        by (intro prepare_product_data_present) simp_all
      with s g True None show ?thesis
        by (simp add: valid_records_def spec_operation_def)
    next
      case (Some existing)
      with assms s True have "update_keys_present cfg p" by (simp add: record_readable_def)
      from submit_update_present [OF this, of existing] s g True Some show ?thesis
        by (simp add: valid_records_def spec_operation_def)
    qed
  qed
qed

lemma update_or_create_unreadable:
  assumes "\<not> record_readable cfg m p"
  shows "\<exists>key. update_or_create cfg m (p # rest) futures = (futures, Some (KeyError key))"
proof (cases "sku p")
  case None
  then show ?thesis by simp
next
  case (Some s)
  with assms have v: "validate_sku s" by (auto simp: record_readable_def)
  show ?thesis
  proof (cases "m s")
    case None
    with assms Some v have "\<not> create_keys_present cfg p" by (simp add: record_readable_def)
    from prepare_product_data_absent [OF this] Some v None show ?thesis by auto
  next
    case (Some existing)
    with assms \<open>sku p = Some s\<close> v have "\<not> update_keys_present cfg p"
      by (simp add: record_readable_def)
    from submit_update_absent [OF this, of existing] \<open>sku p = Some s\<close> v Some
    show ?thesis by auto
  qed
qed

lemma valid_records_Cons:
  "valid_records (p # fs) = valid_records [p] @ valid_records fs"
  by (simp add: valid_records_def)

lemma update_or_create_complete:
  "list_all (record_readable cfg m) fs \<Longrightarrow>
   update_or_create cfg m fs futures =
     (futures @ map (spec_operation cfg m) (valid_records fs), None)"
proof (induction fs arbitrary: futures)
  case Nil
  then show ?case by (simp add: valid_records_def)
next
  case (Cons p fs)
  then have "record_readable cfg m p" and "list_all (record_readable cfg m) fs" by simp_all
  with Cons.IH [of "futures @ map (spec_operation cfg m) (valid_records [p])"]
  show ?case
    by (simp only: update_or_create_readable valid_records_Cons [of p fs] map_append append_assoc)
qed

lemma update_or_create_cut_short:
  "\<not> list_all (record_readable cfg m) fs \<Longrightarrow>
   \<exists>key. update_or_create cfg m fs futures =
     (futures @ map (spec_operation cfg m) (valid_records (takeWhile (record_readable cfg m) fs)),
      Some (KeyError key))"
proof (induction fs arbitrary: futures)
  case Nil
  then show ?case by simp
next
  case (Cons p fs)
  show ?case
  proof (cases "record_readable cfg m p")
    case False
    from update_or_create_unreadable [OF False, of fs futures] False show ?thesis
      by (auto simp: valid_records_def)
  next
    case True
    with Cons.prems have "\<not> list_all (record_readable cfg m) fs" by simp
    from Cons.IH [OF this, of "futures @ map (spec_operation cfg m) (valid_records [p])"]
    obtain key where "update_or_create cfg m fs
        (futures @ map (spec_operation cfg m) (valid_records [p])) =
      ((futures @ map (spec_operation cfg m) (valid_records [p])) @
         map (spec_operation cfg m) (valid_records (takeWhile (record_readable cfg m) fs)),
       Some (KeyError key))"
      by blast
    moreover from True have "valid_records (takeWhile (record_readable cfg m) (p # fs)) =
        valid_records [p] @ valid_records (takeWhile (record_readable cfg m) fs)"
      using valid_records_Cons [of p "takeWhile (record_readable cfg m) fs"] by simp
    ultimately have "update_or_create cfg m (p # fs) futures =
      (futures @ map (spec_operation cfg m)
          (valid_records (takeWhile (record_readable cfg m) (p # fs))), Some (KeyError key))"
      unfolding update_or_create_readable [OF True] by simp
    then show ?thesis by blast
  qed
qed

lemma those_map_sku:
  "\<forall>p\<in>set fs. sku p \<noteq> None \<Longrightarrow> those (map sku fs) = Some (map get_sku fs)"
  by (induction fs) (auto simp: get_sku_def split: option.splits)

lemma json_skus_complete:
  "\<forall>p\<in>set fs. sku p \<noteq> None \<Longrightarrow> json_skus fs = Inr (get_sku ` set fs)"
  by (simp add: json_skus_def those_map_sku)

lemma stale_entry_iff:
  "stale_entry cfg fs p \<longleftrightarrow>
     (\<exists>s. woo_sku p = Some s \<and> s \<noteq> [] \<and> s \<notin> get_sku ` set fs \<and> s \<notin> blacklist_skus cfg)"
  by (simp add: stale_entry_def split: option.splits)

lemma handle_missing_skus_complete:
  assumes "\<forall>p\<in>set fs. sku p \<noteq> None"
  shows "handle_missing_skus cfg fs ex futures = (futures @ missing_sku_zeros cfg fs ex, None)"
proof -
  have "filter (\<lambda>p. case woo_sku p of None \<Rightarrow> False
              | Some s \<Rightarrow> s \<noteq> [] \<and> s \<notin> get_sku ` set fs \<and> \<not> is_blacklisted cfg s) ex
        = filter (stale_entry cfg fs) ex"
    by (rule filter_cong) (auto simp: is_blacklisted_def stale_entry_def split: option.splits)
  then show ?thesis
    by (simp add: handle_missing_skus_def json_skus_complete [OF assms] missing_sku_zeros_def)
qed

lemma handle_no_sku_eq:
  "handle_no_sku cfg ex futures = futures @ no_sku_zeros cfg ex"
  by (simp add: handle_no_sku_def no_sku_zeros_def)

lemma submit_all_complete:
  assumes "list_all (record_readable cfg (existing_product_map cfg ex)) fs"
  shows "submit_all cfg fs ex =
           (map (spec_operation cfg (existing_product_map cfg ex)) (valid_records fs)
              @ missing_sku_zeros cfg fs ex @ no_sku_zeros cfg ex, None)"
proof -
  from assms have "\<forall>p\<in>set fs. sku p \<noteq> None"
    by (auto simp: list_all_iff dest: record_readable_sku)
  then show ?thesis
    by (simp add: submit_all_def update_or_create_complete [OF assms]
          handle_missing_skus_complete handle_no_sku_eq)
qed

lemma submit_all_cut_short:
  assumes "\<not> list_all (record_readable cfg (existing_product_map cfg ex)) fs"
  shows "\<exists>key. submit_all cfg fs ex =
           (map (spec_operation cfg (existing_product_map cfg ex))
              (valid_records (takeWhile (record_readable cfg (existing_product_map cfg ex)) fs)),
            Some (KeyError key))"
proof -
  from update_or_create_cut_short [OF assms, of "[]"] obtain key where
    "update_or_create cfg (existing_product_map cfg ex) fs [] =
       (map (spec_operation cfg (existing_product_map cfg ex))
          (valid_records (takeWhile (record_readable cfg (existing_product_map cfg ex)) fs)),
        Some (KeyError key))"
    by auto
  then have "submit_all cfg fs ex =
       (map (spec_operation cfg (existing_product_map cfg ex))
          (valid_records (takeWhile (record_readable cfg (existing_product_map cfg ex)) fs)),
        Some (KeyError key))"
    by (simp add: submit_all_def)
  then show ?thesis by blast
qed

lemma submit_all_subset:
  "set (fst (submit_all cfg fs ex)) \<subseteq>
     spec_operation cfg (existing_product_map cfg ex) `
        {p \<in> set fs. sku p \<noteq> None \<and> validate_sku (get_sku p)}
     \<union> set (missing_sku_zeros cfg fs ex) \<union> set (no_sku_zeros cfg ex)"
proof (cases "list_all (record_readable cfg (existing_product_map cfg ex)) fs")
  case True
  then have "\<forall>p\<in>set fs. sku p \<noteq> None"
    by (auto simp: list_all_iff dest: record_readable_sku)
  then show ?thesis
    unfolding submit_all_complete [OF True] by (auto simp: valid_records_def)
next
  case False
  let ?m = "existing_product_map cfg ex"
  have "p \<in> set fs \<and> sku p \<noteq> None \<and> validate_sku (get_sku p)"
    if "p \<in> set (valid_records (takeWhile (record_readable cfg ?m) fs))" for p
  proof -
    from that have v: "validate_sku (get_sku p)" and t: "p \<in> set (takeWhile (record_readable cfg ?m) fs)"
      by (simp_all add: valid_records_def)
    from t have "p \<in> set fs" and "record_readable cfg ?m p"
      by (auto dest: set_takeWhileD)
    with v show ?thesis by (simp add: record_readable_sku)
  qed
  with submit_all_cut_short [OF False] show ?thesis by auto
qed

subsection \<open>Pagination\<close>


lemma fetch_pages_full:
  "full_page get page \<Longrightarrow>
   fetch_pages get page acc req =
     fetch_pages get (Suc page) (acc @ page_entries get page) (req @ [page])"
  by (subst fetch_pages.simps) (auto simp: full_page_def page_entries_def split: sum.splits)

lemma fetch_pages_run:
  "\<forall>k. page \<le> k \<and> k < n \<longrightarrow> full_page get k \<Longrightarrow> page \<le> n \<Longrightarrow>
   fetch_pages get page acc req =
     fetch_pages get n (acc @ concat (map (page_entries get) [page..<n])) (req @ [page..<n])"
proof (induction "n - page" arbitrary: page acc req)
  case 0
  then show ?case by simp
next
  case (Suc d)
  then have lt: "page < n" and full: "full_page get page" by auto
  from Suc have ih: "fetch_pages get (Suc page) (acc @ page_entries get page) (req @ [page]) =
      fetch_pages get n ((acc @ page_entries get page) @ concat (map (page_entries get) [Suc page..<n]))
        ((req @ [page]) @ [Suc page..<n])"
    by (intro Suc.hyps(1)) auto
  from lt have "[page..<n] = page # [Suc page..<n]" by (simp add: upt_conv_Cons)
  with ih fetch_pages_full [OF full] show ?case by simp
qed

lemma fetch_pages_empty:
  "get n = Inr [] \<Longrightarrow> fetch_pages get n acc req = Some (req @ [n], Inr acc)"
  by (subst fetch_pages.simps) simp

lemma fetch_pages_raises:
  "get n = Inl x \<Longrightarrow> fetch_pages get n acc req = Some (req @ [n], Inl x)"
  by (subst fetch_pages.simps) simp



lemma fetch_pages_returns:
  assumes "fetch_pages get page acc req = Some y"
  shows "\<exists>k\<ge>page. \<not> full_page get k"
proof (rule fetch_pages.raw_induct [OF _ assms])
  fix f g p a r z
  assume ih: "\<And>g' p' a' r' z'. f g' p' a' r' = Some z' \<Longrightarrow> \<exists>k\<ge>p'. \<not> full_page g' k"
    and step: "(case g p of
        Inl e \<Rightarrow> Some (r @ [p], Inl e)
      | Inr products \<Rightarrow>
          if products = [] then Some (r @ [p], Inr a)
          else f g (p + 1) (a @ products) (r @ [p])) = Some z"
  show "\<exists>k\<ge>p. \<not> full_page g k"
  proof (cases "full_page g p")
    case False
    then show ?thesis by blast
  next
    case True
    with step have "f g (p + 1) (a @ page_entries g p) (r @ [p]) = Some z"
      by (auto simp: full_page_def page_entries_def split: sum.splits)
    from ih [OF this] obtain k where k: "p + 1 \<le> k" "\<not> full_page g k" by blast
    from k(1) have "p \<le> k" by simp
    with k(2) show ?thesis by blast
  qed
qed

lemma fetch_pages_forever:
  assumes "\<forall>k\<ge>page. full_page get k"
  shows "fetch_pages get page acc req = None"
proof (cases "fetch_pages get page acc req")
  case None
  then show ?thesis .
next
  case (Some y)
  from fetch_pages_returns [OF Some] assms show ?thesis by blast
qed

subsection \<open>The whole listing\<close>

lemma fetch_all_prefix:
  assumes "1 \<le> n" and "\<forall>k. 1 \<le> k \<and> k < n \<longrightarrow> full_page (woo_get e) k"
  shows "fetch_all_woo_products e =
           fetch_pages (woo_get e) n (concat (map (page_entries (woo_get e)) [1..<n])) [1..<n]"
  unfolding fetch_all_woo_products_def
  using fetch_pages_run [of 1 n "woo_get e" "[]" "[]"] assms by simp

lemma fetch_all_stops:
  assumes "1 \<le> n" and "\<forall>k. 1 \<le> k \<and> k < n \<longrightarrow> full_page (woo_get e) k"
    and "woo_get e n = Inr []"
  shows "fetch_all_woo_products e =
           Some ([1..<Suc n], Inr (concat (map (page_entries (woo_get e)) [1..<n])))"
  unfolding fetch_all_prefix [OF assms(1,2)]
  using fetch_pages_empty [of "woo_get e" n, OF assms(3)] assms(1) by simp

lemma fetch_all_raises:
  assumes "1 \<le> n" and "\<forall>k. 1 \<le> k \<and> k < n \<longrightarrow> full_page (woo_get e) k"
    and "woo_get e n = Inl x"
  shows "fetch_all_woo_products e = Some ([1..<Suc n], Inl x)"
  unfolding fetch_all_prefix [OF assms(1,2)]
  using fetch_pages_raises [of "woo_get e" n, OF assms(3)] assms(1) by simp

lemma fetch_all_forever:
  assumes "\<forall>k\<ge>1. full_page (woo_get e) k"
  shows "fetch_all_woo_products e = None"
  unfolding fetch_all_woo_products_def by (rule fetch_pages_forever) (use assms in simp)

subsection \<open>Running the futures\<close>

lemma first_raised_None_iff: "first_raised rs = None \<longleftrightarrow> (\<forall>r\<in>set rs. r = None)"
  by (induction rs rule: first_raised.induct) simp_all

lemma first_raised_Some_iff:
  "first_raised rs = Some y \<longleftrightarrow>
     (\<exists>i<length rs. rs ! i = Some y \<and> (\<forall>j<i. rs ! j = None))"
proof (induction rs rule: first_raised.induct)
  case 1
  then show ?case by simp
next
  case (2 rs)
  show ?case
  proof
    assume "first_raised (None # rs) = Some y"
    with 2 obtain i where i: "i < length rs" "rs ! i = Some y" "\<forall>j<i. rs ! j = None"
      by auto
    have "\<forall>j<Suc i. (None # rs) ! j = None"
    proof (intro allI impI)
      fix j assume "j < Suc i"
      with i(3) show "(None # rs) ! j = None" by (cases j) simp_all
    qed
    with i(1,2) show "\<exists>i<length (None # rs). (None # rs) ! i = Some y
                        \<and> (\<forall>j<i. (None # rs) ! j = None)"
      by (intro exI [of _ "Suc i"]) simp
  next
    assume "\<exists>i<length (None # rs). (None # rs) ! i = Some y \<and> (\<forall>j<i. (None # rs) ! j = None)"
    then obtain i where i: "i < length (None # rs)" "(None # rs) ! i = Some y"
      "\<forall>j<i. (None # rs) ! j = None"
      by blast
    from i(2) obtain k where k: "i = Suc k" by (cases i) simp_all
    from i(3) k have "\<forall>j<k. rs ! j = None" by auto
    with i(1,2) k have "\<exists>i<length rs. rs ! i = Some y \<and> (\<forall>j<i. rs ! j = None)"
      by (intro exI [of _ k]) simp
    with 2 show "first_raised (None # rs) = Some y" by simp
  qed
next
  case (3 x rs)
  show ?case
  proof
    assume "first_raised (Some x # rs) = Some y"
    then show "\<exists>i<length (Some x # rs). (Some x # rs) ! i = Some y
                 \<and> (\<forall>j<i. (Some x # rs) ! j = None)"
      by (intro exI [of _ 0]) simp
  next
    assume "\<exists>i<length (Some x # rs). (Some x # rs) ! i = Some y
              \<and> (\<forall>j<i. (Some x # rs) ! j = None)"
    then obtain i where i: "(Some x # rs) ! i = Some y" "\<forall>j<i. (Some x # rs) ! j = None"
      by blast
    from i(2) have "i = 0" by (cases i) auto
    with i(1) show "first_raised (Some x # rs) = Some y" by simp
  qed
qed

lemma length_run_futures: "length (run_futures cfg e futures) = length futures"
  by (simp add: run_futures_def)

lemma nth_run_futures:
  "i < length futures \<Longrightarrow> run_futures cfg e futures ! i = run_job cfg e i (futures ! i)"
  by (simp add: run_futures_def nth_enumerate_eq)

lemma sync_products_submitted:
  assumes "fetch_stock_data e = Inr data"
    and "fetch_all_woo_products e = Some (requested, Inr existing)"
    and "submit_all cfg (filter_stock cfg data) existing = (futures, err)"
  shows "sync_products cfg e =
           Some \<lparr> executed = zip futures (map fst (run_futures cfg e futures)),
                  raised = (case err of
                              Some x \<Rightarrow> Some x
                            | None \<Rightarrow> first_raised (map snd (run_futures cfg e futures))) \<rparr>"
  using assms by (simp add: sync_products_def Let_def)

lemma sync_products_listing_raises:
  assumes "fetch_stock_data e = Inr data"
    and "fetch_all_woo_products e = Some (requested, Inl x)"
  shows "sync_products cfg e = Some \<lparr> executed = [], raised = Some x \<rparr>"
  using assms by (simp add: sync_products_def Let_def)

lemma distinct_ids_same_entry:
  "distinct (map woo_id ex) \<Longrightarrow> p \<in> set ex \<Longrightarrow> q \<in> set ex \<Longrightarrow> woo_id p = woo_id q \<Longrightarrow> p = q"
  by (auto simp: distinct_map dest: inj_onD)

subsection \<open>The blacklist of a configuration file\<close>

lemma parse_blacklist_no_empty_sku: "[] \<notin> parse_blacklist strip blacklist_skus_str"
  by (auto simp: parse_blacklist_def)

subsection \<open>The example run\<close>

lemma example_filtered:
  "filter_stock example_config example_data =
     [example_item ''A1'' ''EU Spec'' 5, example_item ''N7'' ''Global spec'' 3,
      example_item ''A 1'' ''EU Spec'' 4]"
  by (simp add: filter_stock_def stock_array_def example_data_def example_item_def
        example_config_def spec_eligible_def eligible_specs_def is_blacklisted_def get_sku_def)

lemma example_index:
  "existing_product_map example_config example_listing =
     [''A1'' \<mapsto> example_entry 10 ''A1'', ''C3'' \<mapsto> example_entry 20 ''C3'',
      ''A 1'' \<mapsto> example_entry 40 ''A 1'']"
  by (simp add: existing_product_map_def example_listing_def example_entry_def
        example_config_def is_blacklisted_def)

lemma example_valid:
  "validate_sku ''A1''" "validate_sku ''N7''" "\<not> validate_sku ''A 1''" "\<not> validate_sku []"
  by (simp_all add: validate_sku_def sku_char_def)

lemma example_readable:
  "list_all (record_readable example_config (existing_product_map example_config example_listing))
     (filter_stock example_config example_data)"
  unfolding example_filtered example_index
  by (simp add: record_readable_def example_item_def example_entry_def example_valid
        update_keys_present_def create_keys_present_def)

lemma example_plan:
  "submit_all example_config (filter_stock example_config example_data) example_listing =
     ([UpdateProduct 10 5 (Some ''199.00''),
       PostProducts (create_payload example_config (example_item ''N7'' ''Global spec'' 3)),
       ZeroStock 20, ZeroStock 30], None)"
proof -
  have v: "valid_records (filter_stock example_config example_data) =
      [example_item ''A1'' ''EU Spec'' 5, example_item ''N7'' ''Global spec'' 3]"
    using example_valid by (simp add: valid_records_def example_filtered get_sku_def example_item_def)
  have ops: "map (spec_operation example_config (existing_product_map example_config example_listing))
               [example_item ''A1'' ''EU Spec'' 5, example_item ''N7'' ''Global spec'' 3] =
      [UpdateProduct 10 5 (Some ''199.00''),
       PostProducts (create_payload example_config (example_item ''N7'' ''Global spec'' 3))]"
    by (simp add: spec_operation_def example_index)
       (simp add: example_item_def get_sku_def example_entry_def example_config_def)
  have m: "missing_sku_zeros example_config (filter_stock example_config example_data)
             example_listing = [ZeroStock 20]"
    unfolding example_filtered
    by (simp add: missing_sku_zeros_def example_listing_def example_entry_def
          stale_entry_def example_config_def example_item_def get_sku_def)
  have z: "no_sku_zeros example_config example_listing = [ZeroStock 30]"
    by (simp add: no_sku_zeros_def example_listing_def example_entry_def has_sku_def
          example_config_def)
  show ?thesis
    unfolding submit_all_complete [OF example_readable] v ops m z by simp
qed

lemma keyless_filtered:
  "filter_stock example_config keyless_data =
     [example_item ''A1'' ''EU Spec'' 5, keyless_item, example_item ''N7'' ''Global spec'' 3]"
  by (simp add: filter_stock_def stock_array_def keyless_data_def keyless_item_def
        example_item_def example_config_def spec_eligible_def eligible_specs_def
        is_blacklisted_def get_sku_def)

lemma keyless_plan:
  "submit_all example_config (filter_stock example_config keyless_data) example_listing =
     ([UpdateProduct 10 5 (Some ''199.00'')], Some (KeyError ''sku''))"
  unfolding keyless_filtered submit_all_def example_index
  by (simp add: example_item_def keyless_item_def example_valid submit_update_def
        example_entry_def example_config_def)

lemma timeout_env_listing:
  "fetch_all_woo_products timeout_env = Some ([1, 2], Inr example_listing)"
proof -
  have full: "\<forall>k. 1 \<le> k \<and> k < 2 \<longrightarrow> full_page (woo_get timeout_env) k"
    by (auto simp: full_page_def timeout_env_def example_listing_def)
  have last: "woo_get timeout_env 2 = Inr []"
    by (simp add: timeout_env_def)
  have upt: "[Suc 0..<2] = [Suc 0]" "[Suc 0..<3] = [Suc 0, 2]"
    by (simp_all add: upt_rec)
  have "page_entries (woo_get timeout_env) 1 = example_listing"
    by (simp add: page_entries_def timeout_env_def)
  with fetch_all_stops [OF _ full last] show ?thesis
    by (simp add: upt)
qed

section \<open>SKU validator\<close>

text \<open>
  C6. Claimed: \<open>validate_sku s\<close> holds exactly when \<open>s\<close> is non-empty and made of ASCII
  letters, digits, hyphens and underscores only. The regular expression ends in \<open>$\<close>,
  which also matches in front of a final newline, so the SKU \<open>A1\<close> followed by a newline
  passes \<open>validate_sku\<close> although its last character is outside the class.
\<close>

theorem validate_sku_accepts_final_newline:
  "validate_sku (''A1'' @ [CHR 0x0A]) \<and> \<not> list_all sku_char (''A1'' @ [CHR 0x0A])"
  by (simp add: validate_sku_def sku_char_def)

section \<open>Stock filter\<close>

text \<open>
  C7. The stock filter keeps a record exactly when its \<open>item_spec\<close> is one of the two
  eligible values and its SKU (the empty string for a record without one) is not in the
  blacklist; the kept records stand in the order of the input; and the result depends on
  the configuration through the blacklist only.
\<close>

theorem filter_stock_keeps_eligible_unlisted_in_order:
  "filter_stock cfg data =
     filter (\<lambda>item. item_spec item \<in> {Some ''EU Spec'', Some ''Global spec''}
                    \<and> get_sku item \<notin> blacklist_skus cfg) (stock_array data)
   \<and> subseq (filter_stock cfg data) (stock_array data)
   \<and> (blacklist_skus cfg' = blacklist_skus cfg \<longrightarrow> filter_stock cfg' data = filter_stock cfg data)"
proof -
  have eq: "\<And>c. filter_stock c data =
     filter (\<lambda>item. item_spec item \<in> {Some ''EU Spec'', Some ''Global spec''}
                    \<and> get_sku item \<notin> blacklist_skus c) (stock_array data)"
    by (simp add: filter_stock_def filter_items_eq spec_eligible_iff is_blacklisted_def)
  have "subseq (filter_stock cfg data) (stock_array data)"
    unfolding eq by (rule subseq_filter_left)
  moreover have "blacklist_skus cfg' = blacklist_skus cfg \<longrightarrow>
      filter_stock cfg' data = filter_stock cfg data"
    by (simp add: eq)
  ultimately show ?thesis using eq [of cfg] by blast
qed

theorem filter_stock_keeps_eligible_unlisted_in_order_witness:
  "blacklist_skus (example_config \<lparr> add_photos := False \<rparr>) = blacklist_skus example_config
   \<and> filter_stock (example_config \<lparr> add_photos := False \<rparr>)
        (Some [example_item ''A1'' ''EU Spec'' 5, example_item ''B2'' ''Other'' 2,
               example_item ''X9'' ''Global spec'' 1, example_item ''C3'' ''Global spec'' 0])
     = [example_item ''A1'' ''EU Spec'' 5, example_item ''C3'' ''Global spec'' 0]"
proof -
  let ?data = "Some [example_item ''A1'' ''EU Spec'' 5, example_item ''B2'' ''Other'' 2,
               example_item ''X9'' ''Global spec'' 1, example_item ''C3'' ''Global spec'' 0]"
  have h: "blacklist_skus (example_config \<lparr> add_photos := False \<rparr>) = blacklist_skus example_config"
    by simp
  from filter_stock_keeps_eligible_unlisted_in_order
         [of example_config ?data "example_config \<lparr> add_photos := False \<rparr>"] h
  have "filter_stock (example_config \<lparr> add_photos := False \<rparr>) ?data =
        filter (\<lambda>item. item_spec item \<in> {Some ''EU Spec'', Some ''Global spec''}
                    \<and> get_sku item \<notin> blacklist_skus example_config) (stock_array ?data)"
    by simp
  with h show ?thesis
    by (simp add: stock_array_def example_item_def example_config_def get_sku_def)
qed

section \<open>Retry policy\<close>

text \<open>
  C8. A future that runs \<open>update_product\<close> (an \<open>UpdateStock\<close> or a \<open>ZeroStock\<close>) makes
  one, two or three \<open>PUT\<close> calls: it stops at the first call that returns, sleeps 1
  second after a first and 2 seconds after a second call that raised, and raises only
  when the third call raised, with that call's exception. A future that creates a
  product makes exactly one \<open>POST\<close> call and never sleeps.
\<close>

theorem update_tries_thrice_with_doubling_sleep_create_once:
  "run_job cfg e i (UpdateProduct product_id stock_quantity cost_price) =
     (let b = Put product_id (build_update_data cfg stock_quantity cost_price) in
      case woo_put e i 0 of
        Responds s0 \<Rightarrow> ([b], None)
      | Raises x0 \<Rightarrow>
          (case woo_put e i 1 of
             Responds s1 \<Rightarrow> ([b, Sleep 1, b], None)
           | Raises x1 \<Rightarrow>
               (case woo_put e i 2 of
                  Responds s2 \<Rightarrow> ([b, Sleep 1, b, Sleep 2, b], None)
                | Raises x2 \<Rightarrow> ([b, Sleep 1, b, Sleep 2, b], Some x2))))
   \<and> run_job cfg e i (PostProducts d) =
       ([Post d], case woo_post e i of Raises x \<Rightarrow> Some x | Responds s \<Rightarrow> None)"
  by (simp add: update_product_unrolled)

section \<open>Catalog index\<close>

text \<open>
  C4, as claimed: of several listing entries that share a SKU, the index keeps the
  first. It keeps the last: in the listing of entry 1 and entry 2, both with SKU \<open>A1\<close>,
  the index holds entry 2 under \<open>A1\<close>, which is not the first entry of the listing.
\<close>

theorem index_keeps_first_duplicate_counterexample:
  "existing_product_map example_config [example_entry 1 ''A1'', example_entry 2 ''A1''] ''A1''
     = Some (example_entry 2 ''A1'')
   \<and> example_entry 2 ''A1'' \<noteq> hd [example_entry 1 ''A1'', example_entry 2 ''A1'']"
  by (simp add: existing_product_map_def example_entry_def example_config_def is_blacklisted_def)

text \<open>
  C4, amended: the index is a map from SKU to entry, so it holds at most one entry per
  SKU; an entry it holds under a SKU is a listing entry with exactly that SKU, the SKU is
  neither empty nor blacklisted, and among the listing entries with that SKU the entry
  is the last one.
\<close>

theorem index_holds_last_entry_of_each_eligible_sku:
  assumes "existing_product_map cfg existing_products s = Some entry"
  shows "s \<noteq> [] \<and> s \<notin> blacklist_skus cfg
         \<and> entry \<in> set existing_products \<and> woo_sku entry = Some s
         \<and> entry = last (filter (\<lambda>p. woo_sku p = Some s) existing_products)"
  using existing_product_map_Some [OF assms] existing_product_map_entry [OF assms]
  by (simp add: is_blacklisted_def)

theorem index_holds_last_entry_of_each_eligible_sku_witness:
  "existing_product_map example_config [example_entry 1 ''A1'', example_entry 2 ''A1''] ''A1''
     = Some (example_entry 2 ''A1'')
   \<and> ''A1'' \<notin> blacklist_skus example_config
   \<and> example_entry 2 ''A1'' =
       last (filter (\<lambda>p. woo_sku p = Some ''A1'') [example_entry 1 ''A1'', example_entry 2 ''A1''])"
proof -
  have h: "existing_product_map example_config
             [example_entry 1 ''A1'', example_entry 2 ''A1''] ''A1'' = Some (example_entry 2 ''A1'')"
    by (simp add: existing_product_map_def example_entry_def example_config_def is_blacklisted_def)
  from index_holds_last_entry_of_each_eligible_sku [OF h] h show ?thesis by blast
qed

section \<open>Diff planner\<close>







text \<open>
  C3. Let the blacklist hold no empty SKU (\<open>Config.from_file\<close> drops empty items, see
  \<open>parse_blacklist_no_empty_sku\<close>) and let the listing's ids be distinct (they are the
  platform's keys). Then for a blacklisted SKU \<open>s\<close>: no filtered record has SKU \<open>s\<close>,
  the index has no entry under \<open>s\<close>, and no future submitted, whether or not the
  submission ran to its end, creates a product with SKU \<open>s\<close> or updates or zeroes a
  listing entry whose SKU is \<open>s\<close>.
\<close>

theorem blacklisted_sku_in_no_operation:
  assumes "[] \<notin> blacklist_skus cfg"
    and "distinct (map woo_id existing_products)"
    and "s \<in> blacklist_skus cfg"
  shows "(\<forall>p\<in>set (filter_stock cfg data). get_sku p \<noteq> s)
         \<and> existing_product_map cfg existing_products s = None
         \<and> (\<forall>job\<in>set (fst (submit_all cfg (filter_stock cfg data) existing_products)).
               case job of
                 PostProducts d \<Rightarrow> pd_sku d \<noteq> s
               | UpdateProduct i q c \<Rightarrow>
                   \<forall>entry\<in>set existing_products. woo_sku entry = Some s \<longrightarrow> woo_id entry \<noteq> i)"
proof (intro conjI ballI)
  fix p
  assume "p \<in> set (filter_stock cfg data)"
  with assms(3) show "get_sku p \<noteq> s"
    by (auto simp: filter_stock_def filter_items_eq is_blacklisted_def)
next
  show "existing_product_map cfg existing_products s = None"
  proof (cases "existing_product_map cfg existing_products s")
    case None
    then show ?thesis .
  next
    case (Some entry)
    from existing_product_map_Some [OF Some] assms(3) show ?thesis
      by (simp add: is_blacklisted_def)
  qed
next
  let ?fs = "filter_stock cfg data"
  let ?m = "existing_product_map cfg existing_products"
  fix job
  assume "job \<in> set (fst (submit_all cfg ?fs existing_products))"
  with submit_all_subset [of cfg ?fs existing_products]
  consider (rule1) p where "p \<in> set ?fs" "job = spec_operation cfg ?m p"
    | (rule2) "job \<in> set (missing_sku_zeros cfg ?fs existing_products)"
    | (rule3) "job \<in> set (no_sku_zeros cfg existing_products)"
    by blast
  then show "case job of
                 PostProducts d \<Rightarrow> pd_sku d \<noteq> s
               | UpdateProduct i q c \<Rightarrow>
                   \<forall>entry\<in>set existing_products. woo_sku entry = Some s \<longrightarrow> woo_id entry \<noteq> i"
  proof cases
    case rule1
    from rule1(1) assms(3) have ne: "get_sku p \<noteq> s"
      by (auto simp: filter_stock_def filter_items_eq is_blacklisted_def)
    show ?thesis
    proof (cases "?m (get_sku p)")
      case None
      with rule1(2) ne show ?thesis
        by (simp add: spec_operation_def pd_sku_create_payload)
    next
      case (Some found)
      from existing_product_map_entry [OF Some]
      have f: "found \<in> set existing_products" "woo_sku found = Some (get_sku p)" by simp_all
      have "woo_id entry \<noteq> woo_id found"
        if "entry \<in> set existing_products" "woo_sku entry = Some s" for entry
      proof
        assume "woo_id entry = woo_id found"
        from distinct_ids_same_entry [OF assms(2) that(1) f(1) this] that(2) f(2) ne
        show False by simp
      qed
      with rule1(2) Some show ?thesis
        by (simp add: spec_operation_def)
    qed
  next
    case rule2
    then obtain q where q: "q \<in> set existing_products" "stale_entry cfg ?fs q"
      "job = ZeroStock (woo_id q)"
      by (auto simp: missing_sku_zeros_def split: if_splits)
    from q(2) obtain s' where s': "woo_sku q = Some s'" "s' \<notin> blacklist_skus cfg"
      by (auto simp: stale_entry_iff)
    have "woo_id entry \<noteq> woo_id q"
      if "entry \<in> set existing_products" "woo_sku entry = Some s" for entry
    proof
      assume "woo_id entry = woo_id q"
      from distinct_ids_same_entry [OF assms(2) that(1) q(1) this] that(2) s' assms(3)
      show False by simp
    qed
    with q(3) show ?thesis by simp
  next
    case rule3
    then obtain q where q: "q \<in> set existing_products" "\<not> has_sku q"
      "job = ZeroStock (woo_id q)"
      by (auto simp: no_sku_zeros_def split: if_splits)
    have "woo_id entry \<noteq> woo_id q"
      if "entry \<in> set existing_products" "woo_sku entry = Some s" for entry
    proof
      assume "woo_id entry = woo_id q"
      from distinct_ids_same_entry [OF assms(2) that(1) q(1) this] that(2) q(2)
      have "s = []" by (simp add: has_sku_def)
      with assms(1,3) show False by simp
    qed
    with q(3) show ?thesis by simp
  qed
qed

theorem blacklisted_sku_in_no_operation_witness:
  "[] \<notin> blacklist_skus example_config
   \<and> distinct (map woo_id example_listing)
   \<and> ''X9'' \<in> blacklist_skus example_config
   \<and> example_item ''X9'' ''Global spec'' 1 \<in> set (stock_array example_data)
   \<and> example_entry 11 ''X9'' \<in> set example_listing
   \<and> list_all (\<lambda>p. get_sku p \<noteq> ''X9'') (filter_stock example_config example_data)
   \<and> existing_product_map example_config example_listing ''X9'' = None
   \<and> list_all (\<lambda>job. case job of
                        PostProducts d \<Rightarrow> pd_sku d \<noteq> ''X9''
                      | UpdateProduct i q c \<Rightarrow> i \<noteq> 11)
        (fst (submit_all example_config (filter_stock example_config example_data)
                example_listing))"
proof -
  have h1: "[] \<notin> blacklist_skus example_config" by (simp add: example_config_def)
  have h2: "distinct (map woo_id example_listing)"
    by (simp add: example_listing_def example_entry_def)
  have h3: "''X9'' \<in> blacklist_skus example_config" by (simp add: example_config_def)
  have x9: "example_item ''X9'' ''Global spec'' 1 \<in> set (stock_array example_data)"
    by (simp add: stock_array_def example_data_def)
  have e11: "example_entry 11 ''X9'' \<in> set example_listing"
    by (simp add: example_listing_def)
  have sku11: "woo_sku (example_entry 11 ''X9'') = Some ''X9''" "woo_id (example_entry 11 ''X9'') = 11"
    by (simp_all add: example_entry_def)
  note t = blacklisted_sku_in_no_operation [OF h1 h2 h3, of example_data]
  from t have a: "list_all (\<lambda>p. get_sku p \<noteq> ''X9'') (filter_stock example_config example_data)"
    unfolding list_all_iff by blast
  from t have b: "existing_product_map example_config example_listing ''X9'' = None"
    by blast
  have c: "list_all (\<lambda>job. case job of
                        PostProducts d \<Rightarrow> pd_sku d \<noteq> ''X9''
                      | UpdateProduct i q c \<Rightarrow> i \<noteq> 11)
        (fst (submit_all example_config (filter_stock example_config example_data)
                example_listing))"
    unfolding list_all_iff
  proof
    fix job
    assume "job \<in> set (fst (submit_all example_config (filter_stock example_config example_data)
                example_listing))"
    with t have "case job of
                 PostProducts d \<Rightarrow> pd_sku d \<noteq> ''X9''
               | UpdateProduct i q c \<Rightarrow>
                   \<forall>entry\<in>set example_listing. woo_sku entry = Some ''X9'' \<longrightarrow> woo_id entry \<noteq> i"
      by blast
    with e11 sku11 show "case job of
                        PostProducts d \<Rightarrow> pd_sku d \<noteq> ''X9''
                      | UpdateProduct i q c \<Rightarrow> i \<noteq> 11"
      by (cases job) auto
  qed
  from h1 h2 h3 x9 e11 a b c show ?thesis by blast
qed




section \<open>Paginated listing\<close>

text \<open>
  C9. If pages 1 to \<open>n - 1\<close> of the listing arrive with entries, then: when page \<open>n\<close>
  arrives empty, \<open>fetch_all_woo_products\<close> has requested exactly the pages 1 to \<open>n\<close>, in
  order, and returns the entries of pages 1 to \<open>n - 1\<close> in order; when the request for
  page \<open>n\<close> raises, it has requested the pages 1 to \<open>n\<close> and raises that exception, and
  then (the stock fetch having succeeded) \<open>sync_products\<close> raises it too, having run no
  future, the run ends \<open>Failed\<close> and the process exits with status 1. If every page
  arrives with entries, the fetch never returns.
\<close>

theorem listing_fetch_runs_to_first_empty_page_and_surfaces_errors:
  "(1 \<le> n \<and> (\<forall>k. 1 \<le> k \<and> k < n \<longrightarrow> full_page (woo_get e) k) \<and> woo_get e n = Inr []
      \<longrightarrow> fetch_all_woo_products e =
            Some ([1..<Suc n], Inr (concat (map (page_entries (woo_get e)) [1..<n]))))
   \<and> (1 \<le> n \<and> (\<forall>k. 1 \<le> k \<and> k < n \<longrightarrow> full_page (woo_get e) k) \<and> woo_get e n = Inl x
      \<longrightarrow> fetch_all_woo_products e = Some ([1..<Suc n], Inl x)
          \<and> (fetch_stock_data e = Inr data
               \<longrightarrow> sync_products cfg e = Some \<lparr> executed = [], raised = Some x \<rparr>
                   \<and> map_option final_state (sync_products cfg e) = Some Failed
                   \<and> main (Inr cfg) e = Some 1))
   \<and> ((\<forall>k\<ge>1. full_page (woo_get e) k) \<longrightarrow> fetch_all_woo_products e = None)"
proof (intro conjI impI)
  assume "1 \<le> n \<and> (\<forall>k. 1 \<le> k \<and> k < n \<longrightarrow> full_page (woo_get e) k) \<and> woo_get e n = Inr []"
  then show "fetch_all_woo_products e =
            Some ([1..<Suc n], Inr (concat (map (page_entries (woo_get e)) [1..<n])))"
    using fetch_all_stops [of n e] by blast
next
  assume a: "1 \<le> n \<and> (\<forall>k. 1 \<le> k \<and> k < n \<longrightarrow> full_page (woo_get e) k) \<and> woo_get e n = Inl x"
  then show f: "fetch_all_woo_products e = Some ([1..<Suc n], Inl x)"
    using fetch_all_raises [of n e x] by blast
  assume s: "fetch_stock_data e = Inr data"
  from sync_products_listing_raises [OF s f]
  show r: "sync_products cfg e = Some \<lparr> executed = [], raised = Some x \<rparr>" .
  then show "map_option final_state (sync_products cfg e) = Some Failed"
    by (simp add: final_state_def)
  from r show "main (Inr cfg) e = Some 1" by (simp add: main_def)
next
  assume "\<forall>k\<ge>1. full_page (woo_get e) k"
  then show "fetch_all_woo_products e = None" by (rule fetch_all_forever)
qed

theorem listing_fetch_runs_to_first_empty_page_and_surfaces_errors_witness:
  "fetch_all_woo_products timeout_env = Some ([1, 2], Inr example_listing)
   \<and> woo_get broken_listing_env 3 = Inl (RequestError ''connection reset'')
   \<and> fetch_all_woo_products broken_listing_env
       = Some ([1, 2, 3], Inl (RequestError ''connection reset''))
   \<and> sync_products example_config broken_listing_env
       = Some \<lparr> executed = [], raised = Some (RequestError ''connection reset'') \<rparr>
   \<and> main (Inr example_config) broken_listing_env = Some 1
   \<and> fetch_all_woo_products endless_listing_env = None"
proof -
  have upt: "[Suc 0..<2] = [Suc 0]" "[Suc 0..<3] = [Suc 0, 2]" "[Suc 0..<4] = [Suc 0, 2, 3]"
    by (simp_all add: upt_rec)
  have t1: "(1::nat) \<le> 2" and t2: "(1::nat) \<le> 3" by simp_all
  have full1: "\<forall>k. 1 \<le> k \<and> k < 2 \<longrightarrow> full_page (woo_get timeout_env) k"
    by (auto simp: full_page_def timeout_env_def example_listing_def)
  have last1: "woo_get timeout_env 2 = Inr []"
    by (simp add: timeout_env_def)
  have entries1: "page_entries (woo_get timeout_env) (Suc 0) = example_listing"
    by (simp add: page_entries_def timeout_env_def)
  from listing_fetch_runs_to_first_empty_page_and_surfaces_errors [of 2 timeout_env]
    t1 full1 last1
  have "fetch_all_woo_products timeout_env =
          Some ([1..<Suc 2], Inr (concat (map (page_entries (woo_get timeout_env)) [1..<2])))"
    by blast
  then have a: "fetch_all_woo_products timeout_env = Some ([1, 2], Inr example_listing)"
    by (simp add: upt entries1)
  have full2: "\<forall>k. 1 \<le> k \<and> k < 3 \<longrightarrow> full_page (woo_get broken_listing_env) k"
    by (auto simp: full_page_def broken_listing_env_def example_listing_def)
  have last2: "woo_get broken_listing_env 3 = Inl (RequestError ''connection reset'')"
    by (simp add: broken_listing_env_def)
  have stock2: "fetch_stock_data broken_listing_env = Inr example_data"
    by (simp add: fetch_stock_data_def broken_listing_env_def)
  from listing_fetch_runs_to_first_empty_page_and_surfaces_errors
         [of 3 broken_listing_env "RequestError ''connection reset''" example_data example_config]
    t2 full2 last2 stock2
  have b: "fetch_all_woo_products broken_listing_env
             = Some ([1..<Suc 3], Inl (RequestError ''connection reset''))"
    and c: "sync_products example_config broken_listing_env
             = Some \<lparr> executed = [], raised = Some (RequestError ''connection reset'') \<rparr>"
    and d: "main (Inr example_config) broken_listing_env = Some 1"
    by blast+
  from b have b': "fetch_all_woo_products broken_listing_env
             = Some ([1, 2, 3], Inl (RequestError ''connection reset''))"
    by (simp add: upt)
  have full3: "\<forall>k\<ge>1. full_page (woo_get endless_listing_env) k"
    by (simp add: full_page_def endless_listing_env_def example_listing_def)
  from listing_fetch_runs_to_first_empty_page_and_surfaces_errors [of _ endless_listing_env] full3
  have e: "fetch_all_woo_products endless_listing_env = None"
    by blast
  from a last2 b' c d e show ?thesis by blast
qed

section \<open>Failure of an operation\<close>

text \<open>
  C1, as claimed: when an operation fails after its retries, the run still reaches
  \<open>Done\<close> and the exit status stays zero. In the run below the update of entry 10 times
  out on all three attempts; \<open>sync_products\<close> re-raises, the run ends \<open>Failed\<close> and
  \<open>main\<close> exits with status 1.
\<close>

theorem failed_operation_keeps_exit_zero_counterexample:
  "snd (run_job example_config timeout_env 0 (UpdateProduct 10 5 (Some ''199.00'')))
     = Some (RequestError ''timed out'')
   \<and> map_option final_state (sync_products example_config timeout_env) = Some Failed
   \<and> main (Inr example_config) timeout_env = Some 1"
proof -
  have put: "woo_put timeout_env i k = Raises (RequestError ''timed out'')" for i k
    by (simp add: timeout_env_def)
  have j: "snd (run_job example_config timeout_env 0 (UpdateProduct 10 5 (Some ''199.00'')))
     = Some (RequestError ''timed out'')"
    by (simp add: update_product_unrolled put Let_def)
  have s: "fetch_stock_data timeout_env = Inr example_data"
    by (simp add: fetch_stock_data_def timeout_env_def)
  have "run_futures example_config timeout_env
          [UpdateProduct 10 5 (Some ''199.00''),
           PostProducts (create_payload example_config (example_item ''N7'' ''Global spec'' 3)),
           ZeroStock 20, ZeroStock 30] ! 0
        = run_job example_config timeout_env 0 (UpdateProduct 10 5 (Some ''199.00''))"
    by (simp add: nth_run_futures)
  with j have "raised (the (sync_products example_config timeout_env))
                 = Some (RequestError ''timed out'')"
    unfolding sync_products_submitted [OF s timeout_env_listing example_plan]
    by (simp add: run_futures_def enumerate_eq_zip upt_rec)
  moreover have "sync_products example_config timeout_env \<noteq> None"
    unfolding sync_products_submitted [OF s timeout_env_listing example_plan] by simp
  ultimately have "map_option final_state (sync_products example_config timeout_env) = Some Failed"
    and "main (Inr example_config) timeout_env = Some 1"
    by (auto simp: final_state_def main_def)
  with j show ?thesis by simp
qed

text \<open>
  C1, amended: when an operation fails (an update or zero-stock after its three
  attempts, a create on its one call), no sibling is aborted: every submitted future is
  run, each with the outcomes of its own calls. The failure is kept in no summary and
  the run does not reach \<open>Done\<close>: \<open>sync_products\<close> raises, the run ends \<open>Failed\<close>, and the
  process exits with status 1. The exception raised is the \<open>KeyError\<close> that cut the
  submission of futures short, if there was one; otherwise it is the exception of the
  first failed future in submission order, the one before which every future succeeded.
\<close>

theorem failed_operation_fails_run_after_all_futures_ran:
  assumes "fetch_stock_data e = Inr data"
    and "fetch_all_woo_products e = Some (requested, Inr existing_products)"
    and "submit_all cfg (filter_stock cfg data) existing_products = (futures, err)"
    and "i < length futures"
    and "snd (run_job cfg e i (futures ! i)) = Some x"
  shows "\<exists>r. sync_products cfg e = Some r
           \<and> length (executed r) = length futures
           \<and> (\<forall>j<length futures.
                 executed r ! j = (futures ! j, fst (run_job cfg e j (futures ! j))))
           \<and> (case err of
                 Some k \<Rightarrow> raised r = Some k
               | None \<Rightarrow>
                   \<exists>f y. f < length futures
                      \<and> snd (run_job cfg e f (futures ! f)) = Some y
                      \<and> (\<forall>j<f. snd (run_job cfg e j (futures ! j)) = None)
                      \<and> raised r = Some y)
           \<and> final_state r = Failed
           \<and> main (Inr cfg) e = Some 1"
proof -
  let ?results = "run_futures cfg e futures"
  let ?r = "\<lparr> executed = zip futures (map fst ?results),
              raised = (case err of
                          Some k \<Rightarrow> Some k
                        | None \<Rightarrow> first_raised (map snd ?results)) \<rparr>"
  have r: "sync_products cfg e = Some ?r"
    using sync_products_submitted [OF assms(1,2,3)] by simp
  have len: "length (executed ?r) = length futures"
    by (simp add: length_run_futures)
  have nth: "\<forall>j<length futures.
                 executed ?r ! j = (futures ! j, fst (run_job cfg e j (futures ! j)))"
    by (simp add: length_run_futures nth_run_futures)
  have "snd (?results ! i) \<in> set (map snd ?results)"
    using assms(4) by (simp add: length_run_futures)
  with assms(4,5) have "Some x \<in> set (map snd ?results)"
    by (simp add: nth_run_futures)
  then have "first_raised (map snd ?results) \<noteq> None"
    unfolding first_raised_None_iff by force
  then obtain y where y: "first_raised (map snd ?results) = Some y" by auto
  from y [unfolded first_raised_Some_iff] obtain f where
    f: "f < length futures" "map snd ?results ! f = Some y"
       "\<forall>j<f. map snd ?results ! j = None"
    by (auto simp: length_run_futures)
  from f(1,2) have fy: "snd (run_job cfg e f (futures ! f)) = Some y"
    by (simp add: length_run_futures nth_run_futures)
  have before: "\<forall>j<f. snd (run_job cfg e j (futures ! j)) = None"
  proof (intro allI impI)
    fix j assume "j < f"
    with f(1,3) show "snd (run_job cfg e j (futures ! j)) = None"
      by (auto simp: length_run_futures nth_run_futures dest!: spec [of _ j])
  qed
  have which: "case err of
                 Some k \<Rightarrow> raised ?r = Some k
               | None \<Rightarrow>
                   \<exists>f y. f < length futures
                      \<and> snd (run_job cfg e f (futures ! f)) = Some y
                      \<and> (\<forall>j<f. snd (run_job cfg e j (futures ! j)) = None)
                      \<and> raised ?r = Some y"
  proof (cases err)
    case None
    with y f(1) fy before show ?thesis by auto
  next
    case (Some k)
    then show ?thesis by simp
  qed
  have "raised ?r \<noteq> None" using y by (cases err) simp_all
  then have "final_state ?r = Failed" and "main (Inr cfg) e = Some 1"
    by (simp_all add: final_state_def main_def r)
  with r len nth which show ?thesis by (intro exI [of _ ?r]) simp
qed

theorem failed_operation_fails_run_after_all_futures_ran_witness:
  "fetch_stock_data timeout_env = Inr example_data
   \<and> fetch_all_woo_products timeout_env = Some ([1, 2], Inr example_listing)
   \<and> snd (submit_all example_config (filter_stock example_config example_data) example_listing)
       = None
   \<and> snd (run_job example_config timeout_env 0 (UpdateProduct 10 5 (Some ''199.00'')))
       = Some (RequestError ''timed out'')
   \<and> (\<exists>r. sync_products example_config timeout_env = Some r
          \<and> length (executed r) = 4 \<and> raised r = Some (RequestError ''timed out'')
          \<and> final_state r = Failed)
   \<and> main (Inr example_config) timeout_env = Some 1
   \<and> snd (submit_all example_config (filter_stock example_config keyless_data) example_listing)
       = Some (KeyError ''sku'')
   \<and> (\<exists>r. sync_products example_config keyless_env = Some r
          \<and> length (executed r) = 1 \<and> raised r = Some (KeyError ''sku'')
          \<and> final_state r = Failed)
   \<and> main (Inr example_config) keyless_env = Some 1"
proof -
  let ?plan = "[UpdateProduct 10 5 (Some ''199.00''),
           PostProducts (create_payload example_config (example_item ''N7'' ''Global spec'' 3)),
           ZeroStock 20, ZeroStock 30]"
  have s: "fetch_stock_data timeout_env = Inr example_data"
    by (simp add: fetch_stock_data_def timeout_env_def)
  have i: "0 < length ?plan" by simp
  have j: "snd (run_job example_config timeout_env 0 (?plan ! 0))
     = Some (RequestError ''timed out'')"
    by (simp add: update_product_unrolled timeout_env_def Let_def)
  from failed_operation_fails_run_after_all_futures_ran
         [OF s timeout_env_listing example_plan i j]
  obtain r f y where r: "sync_products example_config timeout_env = Some r"
    "length (executed r) = length ?plan" "final_state r = Failed"
    "main (Inr example_config) timeout_env = Some 1"
    and f: "snd (run_job example_config timeout_env f (?plan ! f)) = Some y"
      "\<forall>j<f. snd (run_job example_config timeout_env j (?plan ! j)) = None"
      "raised r = Some y"
    by auto
  have "f = 0"
  proof (rule ccontr)
    assume "f \<noteq> 0"
    then have "0 < f" by simp
    with f(2) j show False by auto
  qed
  with f(1,3) j have "raised r = Some (RequestError ''timed out'')" by simp
  with r have full: "\<exists>r. sync_products example_config timeout_env = Some r
          \<and> length (executed r) = 4 \<and> raised r = Some (RequestError ''timed out'')
          \<and> final_state r = Failed"
    by auto
  have ks: "fetch_stock_data keyless_env = Inr keyless_data"
    by (simp add: fetch_stock_data_def keyless_env_def)
  have kl: "fetch_all_woo_products keyless_env = Some ([1, 2], Inr example_listing)"
    using timeout_env_listing by (simp add: fetch_all_woo_products_def keyless_env_def)
  have ki: "0 < length [UpdateProduct 10 5 (Some ''199.00'')]" by simp
  have kj: "snd (run_job example_config keyless_env 0 ([UpdateProduct 10 5 (Some ''199.00'')] ! 0))
     = Some (RequestError ''timed out'')"
    by (simp add: update_product_unrolled keyless_env_def timeout_env_def Let_def)
  from failed_operation_fails_run_after_all_futures_ran [OF ks kl keyless_plan ki kj]
  have short: "\<exists>r. sync_products example_config keyless_env = Some r
          \<and> length (executed r) = 1 \<and> raised r = Some (KeyError ''sku'')
          \<and> final_state r = Failed"
    and kmain: "main (Inr example_config) keyless_env = Some 1"
    by auto
  from s timeout_env_listing j full r(4) short kmain show ?thesis
    by (simp add: example_plan keyless_plan)
qed

end
